theory Spec2Isabelle
  imports Complex_Main
begin

section \<open>Data model: the tables of the relational store\<close>

text \<open>
  The server keeps no state of its own; every endpoint of \<^verbatim>\<open>server.js\<close> reads and writes
  four tables of the store. A table is a list of rows (insertion order), a row is a record
  with the columns of the schema that ships with the server. Identifiers are the
  strings the handlers receive and compare; instants are milliseconds since the epoch.
  The nullable profile columns of \<^verbatim>\<open>users\<close> that no modelled endpoint touches are left out.
\<close>

type_synonym uuid = string
type_synonym time = int

record user_row =
  u_id :: uuid
  u_device_id :: string
  u_device_name :: string
  u_full_name :: "string option"

record pairing_code_row =
  pc_id :: uuid
  pc_user_id :: uuid
  pc_code :: string
  pc_latitude :: "real option"
  pc_longitude :: "real option"
  pc_accuracy :: "real option"
  pc_created_at :: time
  pc_expires_at :: time
  pc_updated_at :: "time option"

record device_connection_row =
  dc_id :: uuid
  dc_initiator_user_id :: uuid
  dc_paired_user_id :: uuid
  dc_paired_at :: time

record code_usage_row =
  cu_id :: uuid
  cu_pairing_code_id :: uuid
  cu_user_id :: uuid
  cu_device_id :: "string option"
  cu_code_owner_id :: uuid
  cu_timestamp :: time
  cu_created_at :: time

record store =
  users :: "user_row list"
  pairing_codes :: "pairing_code_row list"
  device_connections :: "device_connection_row list"
  code_usage :: "code_usage_row list"

text \<open>
  What a handler sends back: \<^verbatim>\<open>res.json(x)\<close> is \<open>Json x\<close>, and
  \<^verbatim>\<open>res.status(n).json({ error: m })\<close> is \<open>Status n m\<close>.
\<close>

datatype 'a response = Json 'a | Status nat string

text \<open>The error object the store client hands back: its SQLSTATE code and its message.\<close>

datatype db_error = DbError (err_code: string) (err_message: string)

section \<open>JavaScript values\<close>

text \<open>
  A request field is absent (\<open>None\<close>) or present. \<^verbatim>\<open>!x\<close> holds for an absent field, for the
  empty string and for the number zero; \<^verbatim>\<open>x || null\<close> turns those three into null.
\<close>

fun nonempty :: "string option \<Rightarrow> string option" where
  "nonempty None = None"
| "nonempty (Some s) = (if s = [] then None else Some s)"

fun nonzero :: "real option \<Rightarrow> real option" where
  "nonzero None = None"
| "nonzero (Some r) = (if r = 0 then None else Some r)"

text \<open>\<^verbatim>\<open>toUpperCase\<close>, on the ASCII letters.\<close>

definition toUpperCase_char :: "char \<Rightarrow> char" where
  "toUpperCase_char c =
     (if (97::nat) \<le> of_char c \<and> of_char c \<le> (122::nat)
      then char_of (of_char c - (32::nat)) else c)"

definition toUpperCase :: "string \<Rightarrow> string" where
  "toUpperCase s = map toUpperCase_char s"

text \<open>
  \<^verbatim>\<open>code.replace('-', '').toUpperCase()\<close>: a string pattern replaces the first occurrence
  only.
\<close>

definition cleanCode :: "string \<Rightarrow> string" where
  "cleanCode code = toUpperCase (remove1 (CHR ''-'') code)"

text \<open>
  \<^verbatim>\<open>Math.random().toString(36).substring(2, 8).toUpperCase()\<close>. The argument is the
  base-36 rendering of the random number, \<^verbatim>\<open>"0"\<close> or \<^verbatim>\<open>"0."\<close> followed by its digits.
\<close>

definition random_code :: "string \<Rightarrow> string" where
  "random_code rnd = toUpperCase (take 6 (drop 2 rnd))"

section \<open>The store\<close>

text \<open>\<^verbatim>\<open>.single()\<close> gives a row when the query matches exactly one, an error otherwise.\<close>

fun single :: "'a list \<Rightarrow> 'a option" where
  "single [r] = Some r"
| "single _ = None"

definition select_code :: "store \<Rightarrow> string \<Rightarrow> pairing_code_row option" where
  "select_code s c = single (filter (\<lambda>r. pc_code r = c) (pairing_codes s))"

definition select_user :: "store \<Rightarrow> uuid \<Rightarrow> user_row option" where
  "select_user s i = single (filter (\<lambda>r. u_id r = i) (users s))"

text \<open>The usage rows of one pairing code and one redeeming user.\<close>

definition usage_of :: "uuid \<Rightarrow> uuid \<Rightarrow> store \<Rightarrow> code_usage_row list" where
  "usage_of pcid uid s =
     filter (\<lambda>r. cu_pairing_code_id r = pcid \<and> cu_user_id r = uid) (code_usage s)"

definition select_usage :: "store \<Rightarrow> uuid \<Rightarrow> uuid \<Rightarrow> code_usage_row option" where
  "select_usage s pcid uid = single (usage_of pcid uid s)"

text \<open>
  Inserts obey the constraints of the schema: \<^verbatim>\<open>code TEXT UNIQUE\<close>,
  \<^verbatim>\<open>UNIQUE(initiator_user_id, paired_user_id)\<close> (SQLSTATE 23505) and the
  \<^verbatim>\<open>REFERENCES\<close> clauses (SQLSTATE 23503). A rejected insert leaves the store as it was.
  The primary key of a new row is drawn by the store (\<^verbatim>\<open>gen_random_uuid()\<close>); the drawn
  value is an argument of the operation that inserts.
\<close>

definition user_exists :: "store \<Rightarrow> uuid \<Rightarrow> bool" where
  "user_exists s i = (i \<in> set (map u_id (users s)))"

definition insert_pairing_code :: "store \<Rightarrow> pairing_code_row \<Rightarrow> db_error option \<times> store" where
  "insert_pairing_code s r =
     (if pc_code r \<in> set (map pc_code (pairing_codes s))
      then (Some (DbError ''23505'' ''duplicate key value violates unique constraint''), s)
      else if user_exists s (pc_user_id r)
      then (None, s\<lparr>pairing_codes := pairing_codes s @ [r]\<rparr>)
      else (Some (DbError ''23503'' ''insert or update violates foreign key constraint''), s))"

definition connection_pairs :: "store \<Rightarrow> (uuid \<times> uuid) list" where
  "connection_pairs s =
     map (\<lambda>r. (dc_initiator_user_id r, dc_paired_user_id r)) (device_connections s)"

definition insert_device_connection ::
  "store \<Rightarrow> device_connection_row \<Rightarrow> db_error option \<times> store" where
  "insert_device_connection s r =
     (if (dc_initiator_user_id r, dc_paired_user_id r) \<in> set (connection_pairs s)
      then (Some (DbError ''23505'' ''duplicate key value violates unique constraint''), s)
      else if user_exists s (dc_initiator_user_id r) \<and> user_exists s (dc_paired_user_id r)
      then (None, s\<lparr>device_connections := device_connections s @ [r]\<rparr>)
      else (Some (DbError ''23503'' ''insert or update violates foreign key constraint''), s))"

definition insert_code_usage :: "store \<Rightarrow> code_usage_row \<Rightarrow> db_error option \<times> store" where
  "insert_code_usage s r =
     (if cu_pairing_code_id r \<in> set (map pc_id (pairing_codes s))
         \<and> user_exists s (cu_user_id r) \<and> user_exists s (cu_code_owner_id r)
      then (None, s\<lparr>code_usage := code_usage s @ [r]\<rparr>)
      else (Some (DbError ''23503'' ''insert or update violates foreign key constraint''), s))"

text \<open>
  Deleting a pairing code takes its usage rows with it
  (\<^verbatim>\<open>pairing_code_id ... ON DELETE CASCADE\<close>).
\<close>

definition delete_pairing_code :: "store \<Rightarrow> uuid \<Rightarrow> store" where
  "delete_pairing_code s i =
     (if i \<in> set (map pc_id (pairing_codes s))
      then s\<lparr>pairing_codes := filter (\<lambda>r. pc_id r \<noteq> i) (pairing_codes s),
             code_usage := filter (\<lambda>r. cu_pairing_code_id r \<noteq> i) (code_usage s)\<rparr>
      else s)"

section \<open>Pairing code endpoints\<close>

text \<open>
  \<^verbatim>\<open>POST /api/pairing/generate\<close>. \<open>now\<close> is the clock of the store, which fills
  \<^verbatim>\<open>created_at\<close> and \<^verbatim>\<open>expires_at\<close> by their defaults (\<^verbatim>\<open>NOW()\<close> and
  \<^verbatim>\<open>NOW() + INTERVAL '24 hours'\<close>); \<open>rnd\<close> is \<^verbatim>\<open>Math.random().toString(36)\<close>.
\<close>

definition hours24 :: time where
  "hours24 = 24 * 60 * 60 * 1000"

definition update_device_name :: "store \<Rightarrow> uuid \<Rightarrow> string \<Rightarrow> store" where
  "update_device_name s i n =
     s\<lparr>users := map (\<lambda>u. if u_id u = i then u\<lparr>u_device_name := n\<rparr> else u) (users s)\<rparr>"

definition generate ::
  "time \<Rightarrow> uuid \<Rightarrow> string \<Rightarrow> store \<Rightarrow> string option \<Rightarrow> real option \<Rightarrow> real option \<Rightarrow>
   real option \<Rightarrow> string option \<Rightarrow> string response \<times> store" where
  "generate now new_id rnd s userId latitude longitude accuracy deviceName =
     (case nonempty userId of
        None \<Rightarrow> (Status 400 ''Missing required field: userId'', s)
      | Some uid \<Rightarrow>
          (let code = random_code rnd;
               s1 = (case nonempty deviceName of
                       None \<Rightarrow> s
                     | Some n \<Rightarrow> update_device_name s uid n)
           in case insert_pairing_code s1
                \<lparr>pc_id = new_id, pc_user_id = uid, pc_code = code,
                 pc_latitude = nonzero latitude, pc_longitude = nonzero longitude,
                 pc_accuracy = nonzero accuracy, pc_created_at = now,
                 pc_expires_at = now + hours24, pc_updated_at = None\<rparr> of
                (Some e, s2) \<Rightarrow> (Status 500 (err_message e), s2)
              | (None, s2) \<Rightarrow> (Json code, s2)))"

text \<open>
  \<^verbatim>\<open>POST /api/pairing/validate\<close>, from the answer of the connection insert on: any error
  but a uniqueness violation is thrown and answered with 500; otherwise the pairing code
  is deleted and the owner's row is returned.
\<close>

definition validate_after_insert ::
  "pairing_code_row \<Rightarrow> user_row \<Rightarrow> db_error option \<times> store \<Rightarrow> user_row response \<times> store" where
  "validate_after_insert pairingCode pairingUser r =
     (case r of
        (Some connectionError, s1) \<Rightarrow>
          if err_code connectionError \<noteq> ''23505''
          then (Status 500 (err_message connectionError), s1)
          else (Json pairingUser, delete_pairing_code s1 (pc_id pairingCode))
      | (None, s1) \<Rightarrow> (Json pairingUser, delete_pairing_code s1 (pc_id pairingCode)))"

definition validate ::
  "time \<Rightarrow> uuid \<Rightarrow> store \<Rightarrow> string option \<Rightarrow> string option \<Rightarrow> user_row response \<times> store" where
  "validate now new_id s code initiatorUserId =
     (case nonempty code of
        None \<Rightarrow> (Status 400 ''Missing required fields: code, initiatorUserId'', s)
      | Some c \<Rightarrow>
     (case nonempty initiatorUserId of
        None \<Rightarrow> (Status 400 ''Missing required fields: code, initiatorUserId'', s)
      | Some ini \<Rightarrow>
     (case select_code s (cleanCode c) of
        None \<Rightarrow> (Status 400 ''Invalid or expired pairing code'', s)
      | Some pairingCode \<Rightarrow>
          if pc_expires_at pairingCode < now
          then (Status 400 ''Pairing code has expired'', s)
          else
     (case select_user s (pc_user_id pairingCode) of
        None \<Rightarrow> (Status 400 ''User not found'', s)
      | Some pairingUser \<Rightarrow>
          validate_after_insert pairingCode pairingUser
            (insert_device_connection s
               \<lparr>dc_id = new_id, dc_initiator_user_id = ini,
                dc_paired_user_id = u_id pairingUser, dc_paired_at = now\<rparr>)))))"

section \<open>Device connection endpoints\<close>

record device_summary =
  ds_id :: uuid
  ds_device_name :: string
  ds_device_id :: string

text \<open>
  \<^verbatim>\<open>GET /api/devices/paired/:userId\<close>. The query takes the rows that name the user in
  either column and embeds, for each, the user that \<^verbatim>\<open>paired_user_id\<close> references
  (\<^verbatim>\<open>users:paired_user_id (id, device_id, device_name)\<close>); rows whose embedded user is
  null are skipped.
\<close>

definition summary_of :: "user_row \<Rightarrow> device_summary" where
  "summary_of u = \<lparr>ds_id = u_id u, ds_device_name = u_device_name u, ds_device_id = u_device_id u\<rparr>"

definition listPaired :: "store \<Rightarrow> uuid \<Rightarrow> device_summary list" where
  "listPaired s userId =
     List.map_filter
       (\<lambda>connection. map_option summary_of (select_user s (dc_paired_user_id connection)))
       (filter (\<lambda>c. dc_initiator_user_id c = userId \<or> dc_paired_user_id c = userId)
          (device_connections s))"

text \<open>\<^verbatim>\<open>DELETE /api/devices/disconnect\<close>.\<close>

definition disconnect ::
  "store \<Rightarrow> string option \<Rightarrow> string option \<Rightarrow> string response \<times> store" where
  "disconnect s userId pairedUserId =
     (case nonempty userId of
        None \<Rightarrow> (Status 400 ''Missing required fields: userId, pairedUserId'', s)
      | Some a \<Rightarrow>
     (case nonempty pairedUserId of
        None \<Rightarrow> (Status 400 ''Missing required fields: userId, pairedUserId'', s)
      | Some b \<Rightarrow>
          (Json ''Device disconnected successfully'',
           s\<lparr>device_connections :=
               filter (\<lambda>c. \<not> ((dc_initiator_user_id c = a \<and> dc_paired_user_id c = b)
                            \<or> (dc_initiator_user_id c = b \<and> dc_paired_user_id c = a)))
                 (device_connections s)\<rparr>)))"

section \<open>Code usage endpoints\<close>

text \<open>
  \<^verbatim>\<open>POST /api/codes/:code/track-usage\<close>. \<open>now\<close> is \<^verbatim>\<open>new Date()\<close>; the update
  addresses the row found by its id.
\<close>

definition update_usage :: "store \<Rightarrow> uuid \<Rightarrow> time \<Rightarrow> string option \<Rightarrow> store" where
  "update_usage s i now deviceId =
     s\<lparr>code_usage :=
         map (\<lambda>r. if cu_id r = i then r\<lparr>cu_timestamp := now, cu_device_id := deviceId\<rparr> else r)
           (code_usage s)\<rparr>"

definition trackUsage ::
  "time \<Rightarrow> uuid \<Rightarrow> store \<Rightarrow> string \<Rightarrow> string option \<Rightarrow> string option \<Rightarrow>
   string response \<times> store" where
  "trackUsage now new_id s code userId deviceId =
     (case nonempty userId of
        None \<Rightarrow> (Status 400 ''Missing required field: userId'', s)
      | Some uid \<Rightarrow>
     (case select_code s (cleanCode code) of
        None \<Rightarrow> (Status 400 ''Invalid code'', s)
      | Some pairingCode \<Rightarrow>
     (case select_usage s (pc_id pairingCode) uid of
        Some existingUsage \<Rightarrow>
          (Json ''Code usage updated successfully'',
           update_usage s (cu_id existingUsage) now (nonempty deviceId))
      | None \<Rightarrow>
          (case insert_code_usage s
                  \<lparr>cu_id = new_id, cu_pairing_code_id = pc_id pairingCode, cu_user_id = uid,
                   cu_device_id = nonempty deviceId, cu_code_owner_id = pc_user_id pairingCode,
                   cu_timestamp = now, cu_created_at = now\<rparr> of
             (Some usageError, s1) \<Rightarrow> (Status 500 (err_message usageError), s1)
           | (None, s1) \<Rightarrow> (Json ''Code usage tracked successfully'', s1)))))"

text \<open>
  \<^verbatim>\<open>GET /api/codes/:code/usage-history?userId=\<close>. The rows of the code, newest first,
  each with the device name of the user it references.
\<close>

record usage_entry =
  ue_id :: uuid
  ue_userId :: uuid
  ue_deviceId :: "string option"
  ue_timestamp :: time
  ue_deviceName :: string

record usage_history =
  uh_code :: string
  uh_usageCount :: nat
  uh_usage :: "usage_entry list"

definition usage_entry_of :: "store \<Rightarrow> code_usage_row \<Rightarrow> usage_entry" where
  "usage_entry_of s item =
     \<lparr>ue_id = cu_id item, ue_userId = cu_user_id item, ue_deviceId = cu_device_id item,
      ue_timestamp = cu_timestamp item,
      ue_deviceName =
        (case select_user s (cu_user_id item) of
           None \<Rightarrow> ''Unknown Device''
         | Some u \<Rightarrow> if u_device_name u = [] then ''Unknown Device'' else u_device_name u)\<rparr>"

definition usageHistory ::
  "store \<Rightarrow> string \<Rightarrow> string option \<Rightarrow> usage_history response" where
  "usageHistory s code userId =
     (case nonempty userId of
        None \<Rightarrow> Status 400 ''Missing required field: userId''
      | Some uid \<Rightarrow>
     (case select_code s (cleanCode code) of
        None \<Rightarrow> Status 400 ''Invalid code''
      | Some pairingCode \<Rightarrow>
          if pc_user_id pairingCode \<noteq> uid
          then Status 403 ''Not authorized to view this code's usage''
          else
            (let usage = rev (sort_key cu_timestamp
                   (filter (\<lambda>r. cu_pairing_code_id r = pc_id pairingCode) (code_usage s)));
                 history = map (usage_entry_of s) usage
             in Json \<lparr>uh_code = cleanCode code, uh_usageCount = length history,
                      uh_usage = history\<rparr>)))"

text \<open>\<^verbatim>\<open>DELETE /api/codes/:code/usage/:usageId\<close>.\<close>

definition removeUsageEntry ::
  "store \<Rightarrow> string \<Rightarrow> uuid \<Rightarrow> string option \<Rightarrow> string response \<times> store" where
  "removeUsageEntry s code usageId userId =
     (case nonempty userId of
        None \<Rightarrow> (Status 400 ''Missing required field: userId'', s)
      | Some uid \<Rightarrow>
     (case select_code s (cleanCode code) of
        None \<Rightarrow> (Status 400 ''Invalid code'', s)
      | Some pairingCode \<Rightarrow>
          if pc_user_id pairingCode \<noteq> uid
          then (Status 403 ''Not authorized to remove users from this code'', s)
          else
            (Json ''User removed successfully'',
             s\<lparr>code_usage :=
                 filter (\<lambda>r. \<not> (cu_id r = usageId \<and> cu_pairing_code_id r = pc_id pairingCode))
                   (code_usage s)\<rparr>)))"

section \<open>Location endpoints\<close>

record location_info =
  li_code :: string
  li_latitude :: real
  li_longitude :: real
  li_accuracy :: "real option"
  li_deviceName :: "string option"
  li_createdAt :: time

text \<open>\<^verbatim>\<open>GET /api/pairing/location/:code\<close>.\<close>

definition getLocation :: "store \<Rightarrow> string \<Rightarrow> location_info response" where
  "getLocation s code =
     (case select_code s (cleanCode code) of
        None \<Rightarrow> Status 400 ''Invalid pairing code''
      | Some pairingCode \<Rightarrow>
     (case nonzero (pc_latitude pairingCode) of
        None \<Rightarrow> Status 400 ''Location data not available for this code''
      | Some lat \<Rightarrow>
     (case nonzero (pc_longitude pairingCode) of
        None \<Rightarrow> Status 400 ''Location data not available for this code''
      | Some lon \<Rightarrow>
          Json \<lparr>li_code = pc_code pairingCode, li_latitude = lat, li_longitude = lon,
                li_accuracy = pc_accuracy pairingCode,
                li_deviceName = map_option u_device_name (select_user s (pc_user_id pairingCode)),
                li_createdAt = pc_created_at pairingCode\<rparr>)))"

text \<open>\<^verbatim>\<open>POST /api/pairing/update-location/:code\<close>.\<close>

definition updateLocation ::
  "time \<Rightarrow> store \<Rightarrow> string \<Rightarrow> real option \<Rightarrow> real option \<Rightarrow> real option \<Rightarrow>
   (string \<times> string) response \<times> store" where
  "updateLocation now s code latitude longitude accuracy =
     (case nonzero latitude of
        None \<Rightarrow> (Status 400 ''Missing required fields: latitude, longitude'', s)
      | Some lat \<Rightarrow>
     (case nonzero longitude of
        None \<Rightarrow> (Status 400 ''Missing required fields: latitude, longitude'', s)
      | Some lon \<Rightarrow>
     (case select_code s (cleanCode code) of
        None \<Rightarrow> (Status 400 ''Invalid pairing code'', s)
      | Some pairingCode \<Rightarrow>
          (Json (''Location updated successfully'', cleanCode code),
           s\<lparr>pairing_codes :=
               map (\<lambda>r. if pc_id r = pc_id pairingCode
                         then r\<lparr>pc_latitude := Some lat, pc_longitude := Some lon,
                                pc_accuracy := nonzero accuracy, pc_updated_at := Some now\<rparr>
                         else r)
                 (pairing_codes s)\<rparr>))))"

section \<open>A store to run the endpoints on\<close>

text \<open>
  Three registered users and one pairing code, \<^verbatim>\<open>AB12CD\<close>, generated by U1 at instant 1000
  with a location attached.
\<close>

definition user_U1 :: user_row where
  "user_U1 = \<lparr>u_id = ''U1'', u_device_id = ''device-1'', u_device_name = ''Station'',
     u_full_name = None\<rparr>"

definition user_U2 :: user_row where
  "user_U2 = \<lparr>u_id = ''U2'', u_device_id = ''device-2'', u_device_name = ''Seeker'',
     u_full_name = None\<rparr>"

definition user_U3 :: user_row where
  "user_U3 = \<lparr>u_id = ''U3'', u_device_id = ''device-3'', u_device_name = ''Third'',
     u_full_name = None\<rparr>"

definition code_AB12CD :: pairing_code_row where
  "code_AB12CD = \<lparr>pc_id = ''P1'', pc_user_id = ''U1'', pc_code = ''AB12CD'',
     pc_latitude = Some (371 / 10), pc_longitude = Some (- (1221 / 10)), pc_accuracy = Some 5,
     pc_created_at = 1000, pc_expires_at = 1000 + hours24, pc_updated_at = None\<rparr>"

definition example_store :: store where
  "example_store = \<lparr>users = [user_U1, user_U2, user_U3], pairing_codes = [code_AB12CD],
     device_connections = [], code_usage = []\<rparr>"

text \<open>The same store once U2 has paired with U1.\<close>

definition connected_store :: store where
  "connected_store = example_store\<lparr>device_connections :=
     [\<lparr>dc_id = ''C0'', dc_initiator_user_id = ''U2'', dc_paired_user_id = ''U1'',
       dc_paired_at = 1500\<rparr>]\<rparr>"

text \<open>
  A second code, \<^verbatim>\<open>ZZ99ZZ\<close> of U3, whose stored latitude is zero, and one usage row for
  each of the two codes, both of redeemer U2.
\<close>

definition code_ZZ99ZZ :: pairing_code_row where
  "code_ZZ99ZZ = \<lparr>pc_id = ''P2'', pc_user_id = ''U3'', pc_code = ''ZZ99ZZ'',
     pc_latitude = Some 0, pc_longitude = Some (- (1221 / 10)), pc_accuracy = None,
     pc_created_at = 1000, pc_expires_at = 1000 + hours24, pc_updated_at = None\<rparr>"

definition usage_store :: store where
  "usage_store = example_store\<lparr>
     pairing_codes := [code_AB12CD, code_ZZ99ZZ],
     code_usage :=
       [\<lparr>cu_id = ''G1'', cu_pairing_code_id = ''P1'', cu_user_id = ''U2'', cu_device_id = None,
         cu_code_owner_id = ''U1'', cu_timestamp = 2000, cu_created_at = 2000\<rparr>,
        \<lparr>cu_id = ''G2'', cu_pairing_code_id = ''P2'', cu_user_id = ''U2'', cu_device_id = None,
         cu_code_owner_id = ''U3'', cu_timestamp = 2500, cu_created_at = 2500\<rparr>]\<rparr>"

section \<open>Properties of the store operations\<close>

lemma single_Some_iff: "single xs = Some r \<longleftrightarrow> xs = [r]"
  by (cases xs rule: single.cases) auto

lemma select_code_SomeD:
  assumes "select_code s c = Some pc"
  shows "filter (\<lambda>r. pc_code r = c) (pairing_codes s) = [pc]"
    and "pc \<in> set (pairing_codes s)" and "pc_code pc = c"
proof -
  show f: "filter (\<lambda>r. pc_code r = c) (pairing_codes s) = [pc]"
    using assms by (simp add: select_code_def single_Some_iff)
  have "pc \<in> set (filter (\<lambda>r. pc_code r = c) (pairing_codes s))"
    by (simp add: f)
  then show "pc \<in> set (pairing_codes s)" and "pc_code pc = c"
    by simp_all
qed

lemma select_user_SomeD:
  assumes "select_user s i = Some u"
  shows "u \<in> set (users s)" and "u_id u = i"
proof -
  have f: "filter (\<lambda>r. u_id r = i) (users s) = [u]"
    using assms by (simp add: select_user_def single_Some_iff)
  have "u \<in> set (filter (\<lambda>r. u_id r = i) (users s))"
    by (simp add: f)
  then show "u \<in> set (users s)" and "u_id u = i"
    by simp_all
qed

lemma select_user_exists: "select_user s i = Some u \<Longrightarrow> user_exists s i"
  using select_user_SomeD [of s i u] by (auto simp: user_exists_def)

lemma select_code_deleted:
  assumes "select_code s c = Some pc"
  shows "select_code (delete_pairing_code s (pc_id pc)) c = None"
proof -
  note d = select_code_SomeD [OF assms]
  have "pc_id pc \<in> set (map pc_id (pairing_codes s))"
    using d(2) by simp
  then have "pairing_codes (delete_pairing_code s (pc_id pc))
      = filter (\<lambda>r. pc_id r \<noteq> pc_id pc) (pairing_codes s)"
    by (simp add: delete_pairing_code_def)
  then have "filter (\<lambda>r. pc_code r = c) (pairing_codes (delete_pairing_code s (pc_id pc)))
      = filter (\<lambda>r. pc_id r \<noteq> pc_id pc) (filter (\<lambda>r. pc_code r = c) (pairing_codes s))"
    by (simp add: conj_commute)
  also have "\<dots> = []"
    by (simp add: d(1))
  finally show ?thesis
    by (simp add: select_code_def)
qed

lemma insert_device_connection_codes:
  "pairing_codes (snd (insert_device_connection s r)) = pairing_codes s"
  by (simp add: insert_device_connection_def)

lemma select_code_after_insert_connection:
  "select_code (snd (insert_device_connection s r)) c = select_code s c"
  by (simp add: select_code_def insert_device_connection_codes)

lemma insert_device_connection_error_code:
  "fst (insert_device_connection s r) = Some e \<Longrightarrow>
     (err_code e = ''23505'' \<or> err_code e = ''23503'') \<and> snd (insert_device_connection s r) = s"
  by (auto simp: insert_device_connection_def split: if_splits)

lemma validate_live:
  assumes "c \<noteq> []" "seeker \<noteq> []"
    and "select_code s (cleanCode c) = Some pc"
    and "\<not> pc_expires_at pc < now"
    and "select_user s (pc_user_id pc) = Some owner"
  shows "validate now new_id s (Some c) (Some seeker) =
     validate_after_insert pc owner
       (insert_device_connection s
          \<lparr>dc_id = new_id, dc_initiator_user_id = seeker,
           dc_paired_user_id = u_id owner, dc_paired_at = now\<rparr>)"
  using assms by (simp add: validate_def)

lemma validate_after_insert_ok:
  assumes "fst r = None \<or> (\<exists>e. fst r = Some e \<and> err_code e = ''23505'')"
  shows "validate_after_insert pc owner r = (Json owner, delete_pairing_code (snd r) (pc_id pc))"
  using assms by (cases r) (auto simp: validate_after_insert_def)

lemma insert_device_connection_users_ok:
  assumes "user_exists s (dc_initiator_user_id r)" "user_exists s (dc_paired_user_id r)"
  shows "fst (insert_device_connection s r) = None
     \<or> (\<exists>e. fst (insert_device_connection s r) = Some e \<and> err_code e = ''23505'')"
  using assms by (simp add: insert_device_connection_def)

text \<open>
  Claim C3 (one-time use). A stored, unexpired code whose owner exists is redeemed by a
  registered seeker: the first validate returns the owner's row and the code can no
  longer be found; a second validate with the same code answers with the error of an
  unknown code (400, \<^verbatim>\<open>Invalid or expired pairing code\<close>) and changes nothing.
\<close>

theorem validate_one_time_use:
  assumes live: "select_code s (cleanCode c) = Some pc"
    and unexpired: "\<not> pc_expires_at pc < now"
    and owner: "select_user s (pc_user_id pc) = Some owner"
    and code: "c \<noteq> []"
    and seeker: "seeker \<noteq> []" "user_exists s seeker"
  shows "fst (validate now new_id s (Some c) (Some seeker)) = Json owner
    \<and> select_code (snd (validate now new_id s (Some c) (Some seeker))) (cleanCode c) = None
    \<and> validate now' new_id' (snd (validate now new_id s (Some c) (Some seeker))) (Some c) (Some seeker)
        = (Status 400 ''Invalid or expired pairing code'',
           snd (validate now new_id s (Some c) (Some seeker)))"
proof -
  let ?row = "\<lparr>dc_id = new_id, dc_initiator_user_id = seeker,
                dc_paired_user_id = u_id owner, dc_paired_at = now\<rparr>"
  let ?ins = "insert_device_connection s ?row"
  have own: "user_exists s (u_id owner)"
    using select_user_exists [OF owner] select_user_SomeD(2) [OF owner] by simp
  have "fst ?ins = None \<or> (\<exists>e. fst ?ins = Some e \<and> err_code e = ''23505'')"
    using insert_device_connection_users_ok [of s ?row] seeker(2) own by simp
  then have v: "validate now new_id s (Some c) (Some seeker)
      = (Json owner, delete_pairing_code (snd ?ins) (pc_id pc))"
    using validate_live [OF code seeker(1) live unexpired owner]
      validate_after_insert_ok [of ?ins pc owner] by simp
  have "select_code (snd ?ins) (cleanCode c) = Some pc"
    using live by (simp add: select_code_after_insert_connection)
  then have gone: "select_code (delete_pairing_code (snd ?ins) (pc_id pc)) (cleanCode c) = None"
    by (rule select_code_deleted)
  have second: "validate now' new_id' (delete_pairing_code (snd ?ins) (pc_id pc)) (Some c) (Some seeker)
      = (Status 400 ''Invalid or expired pairing code'', delete_pairing_code (snd ?ins) (pc_id pc))"
    using code seeker(1) gone by (simp add: validate_def)
  show ?thesis
    using v gone second by simp
qed

theorem validate_one_time_use_witness:
  "fst (validate 2000 ''C1'' example_store (Some ''ab-12cd'') (Some ''U2'')) = Json user_U1
    \<and> select_code (snd (validate 2000 ''C1'' example_store (Some ''ab-12cd'') (Some ''U2'')))
         (cleanCode ''ab-12cd'') = None
    \<and> validate 3000 ''C2'' (snd (validate 2000 ''C1'' example_store (Some ''ab-12cd'') (Some ''U2'')))
         (Some ''ab-12cd'') (Some ''U2'')
        = (Status 400 ''Invalid or expired pairing code'',
           snd (validate 2000 ''C1'' example_store (Some ''ab-12cd'') (Some ''U2'')))"
proof -
  have live: "select_code example_store (cleanCode ''ab-12cd'') = Some code_AB12CD"
    by code_simp
  have unexpired: "\<not> pc_expires_at code_AB12CD < 2000"
    by code_simp
  have owner: "select_user example_store (pc_user_id code_AB12CD) = Some user_U1"
    by code_simp
  have seeker: "user_exists example_store ''U2''"
    by code_simp
  show ?thesis
    using validate_one_time_use [OF live unexpired owner _ _ seeker,
        where new_id = "''C1''" and now' = 3000 and new_id' = "''C2''"]
    by simp
qed

text \<open>
  Claim C4 (expired code). For a stored code whose \<^verbatim>\<open>expires_at\<close> lies strictly before
  the current time, validate answers \<^verbatim>\<open>Pairing code has expired\<close> and returns the
  store as it was: the code row is still there and no connection was created.
\<close>

theorem validate_expired_unchanged:
  assumes "select_code s (cleanCode c) = Some pc"
    and "pc_expires_at pc < now"
    and "c \<noteq> []" and "seeker \<noteq> []"
  shows "validate now new_id s (Some c) (Some seeker) = (Status 400 ''Pairing code has expired'', s)"
  using assms by (simp add: validate_def)


theorem validate_expired_unchanged_witness:
  "select_code example_store (cleanCode ''AB12CD'') = Some code_AB12CD
    \<and> pc_expires_at code_AB12CD < 90000000
    \<and> validate 90000000 ''C1'' example_store (Some ''AB12CD'') (Some ''U2'')
        = (Status 400 ''Pairing code has expired'', example_store)"
proof -
  have live: "select_code example_store (cleanCode ''AB12CD'') = Some code_AB12CD"
    by code_simp
  have expired: "pc_expires_at code_AB12CD < 90000000"
    by code_simp
  show ?thesis
    using live expired
      validate_expired_unchanged [OF live expired, where seeker = "''U2''" and new_id = "''C1''"]
    by simp
qed

text \<open>
  Claim C5 (side-effect ordering in validate). For a stored, unexpired code whose owner
  exists, validate is the connection insert followed by the handler's reaction to its
  answer. Any error whose code is not 23505 is answered with 500 and the store is
  returned as the insert left it, so the code row is not deleted; an unregistered seeker
  (foreign-key violation) is such a case, and the code is still found afterwards. A
  uniqueness violation (23505, seeker and owner already connected) is tolerated: validate
  returns the owner and deletes the code. On a fresh connection the code is deleted from
  the store that already holds the new connection row.
\<close>

theorem validate_insert_before_delete:
  assumes live: "select_code s (cleanCode c) = Some pc"
    and unexpired: "\<not> pc_expires_at pc < now"
    and owner: "select_user s (pc_user_id pc) = Some owner"
    and code: "c \<noteq> []"
    and seeker: "seeker \<noteq> []"
  shows "validate now new_id s (Some c) (Some seeker)
           = validate_after_insert pc owner
               (insert_device_connection s
                  \<lparr>dc_id = new_id, dc_initiator_user_id = seeker,
                   dc_paired_user_id = pc_user_id pc, dc_paired_at = now\<rparr>)
    \<and> (err_code e \<noteq> ''23505'' \<longrightarrow>
            validate_after_insert pc owner (Some e, s') = (Status 500 (err_message e), s'))
    \<and> (err_code e = ''23505'' \<longrightarrow>
            validate_after_insert pc owner (Some e, s')
              = (Json owner, delete_pairing_code s' (pc_id pc)))
    \<and> (\<not> user_exists s seeker \<and> (seeker, pc_user_id pc) \<notin> set (connection_pairs s) \<longrightarrow>
            (\<exists>m. validate now new_id s (Some c) (Some seeker) = (Status 500 m, s)))
    \<and> ((seeker, pc_user_id pc) \<in> set (connection_pairs s) \<longrightarrow>
            validate now new_id s (Some c) (Some seeker)
              = (Json owner, delete_pairing_code s (pc_id pc)))
    \<and> (user_exists s seeker \<and> (seeker, pc_user_id pc) \<notin> set (connection_pairs s) \<longrightarrow>
            validate now new_id s (Some c) (Some seeker)
              = (Json owner,
                 delete_pairing_code
                   (s\<lparr>device_connections := device_connections s @
                        [\<lparr>dc_id = new_id, dc_initiator_user_id = seeker,
                          dc_paired_user_id = pc_user_id pc, dc_paired_at = now\<rparr>]\<rparr>)
                   (pc_id pc)))
    \<and> select_code s (cleanCode c) = Some pc
    \<and> select_code (delete_pairing_code s (pc_id pc)) (cleanCode c) = None"
proof -
  let ?row = "\<lparr>dc_id = new_id, dc_initiator_user_id = seeker,
                dc_paired_user_id = pc_user_id pc, dc_paired_at = now\<rparr>"
  have oid: "u_id owner = pc_user_id pc"
    using select_user_SomeD(2) [OF owner] .
  have v: "validate now new_id s (Some c) (Some seeker)
      = validate_after_insert pc owner (insert_device_connection s ?row)"
    using validate_live [OF code seeker live unexpired owner, of new_id] oid by simp
  have other: "err_code e \<noteq> ''23505'' \<longrightarrow>
      validate_after_insert pc owner (Some e, s') = (Status 500 (err_message e), s')"
    by (simp add: validate_after_insert_def)
  have dup: "err_code e = ''23505'' \<longrightarrow>
      validate_after_insert pc owner (Some e, s') = (Json owner, delete_pairing_code s' (pc_id pc))"
    by (simp add: validate_after_insert_def)
  have fk: "\<not> user_exists s seeker \<and> (seeker, pc_user_id pc) \<notin> set (connection_pairs s) \<longrightarrow>
      (\<exists>m. validate now new_id s (Some c) (Some seeker) = (Status 500 m, s))"
  proof
    assume h: "\<not> user_exists s seeker \<and> (seeker, pc_user_id pc) \<notin> set (connection_pairs s)"
    then have "insert_device_connection s ?row
        = (Some (DbError ''23503'' ''insert or update violates foreign key constraint''), s)"
      by (simp add: insert_device_connection_def connection_pairs_def)
    then have "validate now new_id s (Some c) (Some seeker)
        = (Status 500 ''insert or update violates foreign key constraint'', s)"
      using v by (simp add: validate_after_insert_def)
    then show "\<exists>m. validate now new_id s (Some c) (Some seeker) = (Status 500 m, s)"
      by blast
  qed
  have again: "(seeker, pc_user_id pc) \<in> set (connection_pairs s) \<longrightarrow>
      validate now new_id s (Some c) (Some seeker) = (Json owner, delete_pairing_code s (pc_id pc))"
  proof
    assume h: "(seeker, pc_user_id pc) \<in> set (connection_pairs s)"
    then have "insert_device_connection s ?row
        = (Some (DbError ''23505'' ''duplicate key value violates unique constraint''), s)"
      by (simp add: insert_device_connection_def connection_pairs_def)
    then show "validate now new_id s (Some c) (Some seeker)
        = (Json owner, delete_pairing_code s (pc_id pc))"
      using v by (simp add: validate_after_insert_def)
  qed
  have fresh: "user_exists s seeker \<and> (seeker, pc_user_id pc) \<notin> set (connection_pairs s) \<longrightarrow>
      validate now new_id s (Some c) (Some seeker)
        = (Json owner,
           delete_pairing_code (s\<lparr>device_connections := device_connections s @ [?row]\<rparr>) (pc_id pc))"
  proof
    assume h: "user_exists s seeker \<and> (seeker, pc_user_id pc) \<notin> set (connection_pairs s)"
    have "user_exists s (pc_user_id pc)"
      using owner by (rule select_user_exists)
    with h have "insert_device_connection s ?row
        = (None, s\<lparr>device_connections := device_connections s @ [?row]\<rparr>)"
      by (simp add: insert_device_connection_def connection_pairs_def)
    then show "validate now new_id s (Some c) (Some seeker)
        = (Json owner,
           delete_pairing_code (s\<lparr>device_connections := device_connections s @ [?row]\<rparr>) (pc_id pc))"
      using v by (simp add: validate_after_insert_def)
  qed
  show ?thesis
    using v other dup fk again fresh live select_code_deleted [OF live] by blast
qed

theorem validate_insert_before_delete_witness:
  "(\<exists>m. validate 2000 ''C1'' example_store (Some ''AB12CD'') (Some ''U9'')
          = (Status 500 m, example_store))
    \<and> select_code example_store (cleanCode ''AB12CD'') = Some code_AB12CD
    \<and> validate 2000 ''C1'' connected_store (Some ''AB12CD'') (Some ''U2'')
        = (Json user_U1, delete_pairing_code connected_store (pc_id code_AB12CD))
    \<and> select_code (delete_pairing_code connected_store (pc_id code_AB12CD))
         (cleanCode ''AB12CD'') = None"
proof -
  have live: "select_code example_store (cleanCode ''AB12CD'') = Some code_AB12CD"
    by code_simp
  have live': "select_code connected_store (cleanCode ''AB12CD'') = Some code_AB12CD"
    by code_simp
  have unexpired: "\<not> pc_expires_at code_AB12CD < 2000"
    by code_simp
  have owner: "select_user example_store (pc_user_id code_AB12CD) = Some user_U1"
    by code_simp
  have owner': "select_user connected_store (pc_user_id code_AB12CD) = Some user_U1"
    by code_simp
  have absent: "\<not> user_exists example_store ''U9''
      \<and> (''U9'', pc_user_id code_AB12CD) \<notin> set (connection_pairs example_store)"
    by code_simp
  have present: "(''U2'', pc_user_id code_AB12CD) \<in> set (connection_pairs connected_store)"
    by code_simp
  have ne: "''AB12CD'' \<noteq> []" "''U9'' \<noteq> []" "''U2'' \<noteq> []"
    by simp_all
  have one: "\<exists>m. validate 2000 ''C1'' example_store (Some ''AB12CD'') (Some ''U9'')
      = (Status 500 m, example_store)"
    using validate_insert_before_delete [OF live unexpired owner ne(1) ne(2),
        where new_id = "''C1''"] absent
    by blast
  have two: "validate 2000 ''C1'' connected_store (Some ''AB12CD'') (Some ''U2'')
        = (Json user_U1, delete_pairing_code connected_store (pc_id code_AB12CD))
     \<and> select_code (delete_pairing_code connected_store (pc_id code_AB12CD))
         (cleanCode ''AB12CD'') = None"
    using validate_insert_before_delete [OF live' unexpired owner' ne(1) ne(3),
        where new_id = "''C1''"] present
    by blast
  show ?thesis
    using one two live by blast
qed


section \<open>Properties of the usage ledger\<close>

lemma filter_map_invariant:
  assumes "\<And>x. P (f x) = P x"
  shows "filter P (map f xs) = map f (filter P xs)"
  by (induction xs) (simp_all add: assms)

lemma usage_of_update:
  "usage_of pcid uid (update_usage s i now dev)
     = map (\<lambda>r. if cu_id r = i then r\<lparr>cu_timestamp := now, cu_device_id := dev\<rparr> else r)
         (usage_of pcid uid s)"
  unfolding usage_of_def update_usage_def
  by (simp add: filter_map_invariant)

lemma trackUsage_step:
  assumes live: "select_code s (cleanCode code) = Some pc"
    and user: "uid \<noteq> []" "user_exists s uid"
    and owner: "user_exists s (pc_user_id pc)"
    and inv: "length (usage_of (pc_id pc) uid s) \<le> 1"
  shows "\<exists>row. usage_of (pc_id pc) uid (snd (trackUsage now new_id s code (Some uid) dev)) = [row]
           \<and> cu_timestamp row = now"
    and "pairing_codes (snd (trackUsage now new_id s code (Some uid) dev)) = pairing_codes s"
    and "users (snd (trackUsage now new_id s code (Some uid) dev)) = users s"
    and "\<exists>m. fst (trackUsage now new_id s code (Some uid) dev) = Json m"
proof -
  let ?t = "trackUsage now new_id s code (Some uid) dev"
  let ?new = "\<lparr>cu_id = new_id, cu_pairing_code_id = pc_id pc, cu_user_id = uid,
      cu_device_id = nonempty dev, cu_code_owner_id = pc_user_id pc,
      cu_timestamp = now, cu_created_at = now\<rparr>"
  have idin: "pc_id pc \<in> set (map pc_id (pairing_codes s))"
    using select_code_SomeD(2) [OF live] by simp
  consider (none) "usage_of (pc_id pc) uid s = []" | (one) r where "usage_of (pc_id pc) uid s = [r]"
    using inv by (cases "usage_of (pc_id pc) uid s") (auto simp: length_Suc_conv)
  then have "(\<exists>row. usage_of (pc_id pc) uid (snd ?t) = [row] \<and> cu_timestamp row = now)
      \<and> pairing_codes (snd ?t) = pairing_codes s \<and> users (snd ?t) = users s
      \<and> (\<exists>m. fst ?t = Json m)"
  proof cases
    case none
    then have sel: "select_usage s (pc_id pc) uid = None"
      by (simp add: select_usage_def usage_of_def)
    have ins: "insert_code_usage s ?new = (None, s\<lparr>code_usage := code_usage s @ [?new]\<rparr>)"
      using idin user(2) owner by (simp add: insert_code_usage_def)
    have t: "?t = (Json ''Code usage tracked successfully'', s\<lparr>code_usage := code_usage s @ [?new]\<rparr>)"
      using user(1) live sel ins by (simp add: trackUsage_def)
    have "usage_of (pc_id pc) uid (s\<lparr>code_usage := code_usage s @ [?new]\<rparr>) = [?new]"
      using none by (simp add: usage_of_def)
    then show ?thesis
      using t by simp
  next
    case one
    then have sel: "select_usage s (pc_id pc) uid = Some r"
      by (simp add: select_usage_def usage_of_def)
    have t: "?t = (Json ''Code usage updated successfully'', update_usage s (cu_id r) now (nonempty dev))"
      using user(1) live sel by (simp add: trackUsage_def)
    have "usage_of (pc_id pc) uid (update_usage s (cu_id r) now (nonempty dev))
        = [r\<lparr>cu_timestamp := now, cu_device_id := nonempty dev\<rparr>]"
      using one by (simp add: usage_of_update)
    then show ?thesis
      using t by (simp add: update_usage_def)
  qed
  then show "\<exists>row. usage_of (pc_id pc) uid (snd ?t) = [row] \<and> cu_timestamp row = now"
    and "pairing_codes (snd ?t) = pairing_codes s"
    and "users (snd ?t) = users s"
    and "\<exists>m. fst ?t = Json m"
    by blast+
qed

text \<open>
  Sequential calls keep the ledger free of duplicates: if no pair of pairing-code id and
  user id has more than one usage row, the same holds after trackUsage, whatever it
  answers.
\<close>

lemma trackUsage_keeps_ledger_unique:
  assumes inv: "\<And>p u. length (usage_of p u s) \<le> 1"
  shows "length (usage_of p u (snd (trackUsage now new_id s code userId dev))) \<le> 1"
proof (cases "nonempty userId")
  case None
  then show ?thesis
    using inv by (simp add: trackUsage_def)
next
  case (Some uid)
  show ?thesis
  proof (cases "select_code s (cleanCode code)")
    case None
    then show ?thesis
      using Some inv by (simp add: trackUsage_def)
  next
    case (Some pc)
    note pc = this
    show ?thesis
    proof (cases "select_usage s (pc_id pc) uid")
      case (Some existing)
      then have "snd (trackUsage now new_id s code userId dev)
          = update_usage s (cu_id existing) now (nonempty dev)"
        using \<open>nonempty userId = Some uid\<close> pc by (simp add: trackUsage_def)
      then show ?thesis
        using inv [of p u] by (simp add: usage_of_update)
    next
      case None
      let ?new = "\<lparr>cu_id = new_id, cu_pairing_code_id = pc_id pc, cu_user_id = uid,
          cu_device_id = nonempty dev, cu_code_owner_id = pc_user_id pc,
          cu_timestamp = now, cu_created_at = now\<rparr>"
      have empty: "usage_of (pc_id pc) uid s = []"
        using None inv [of "pc_id pc" uid]
        by (cases "usage_of (pc_id pc) uid s") (auto simp: select_usage_def)
      have "snd (trackUsage now new_id s code userId dev) = s
          \<or> snd (trackUsage now new_id s code userId dev) = s\<lparr>code_usage := code_usage s @ [?new]\<rparr>"
        using \<open>nonempty userId = Some uid\<close> pc None
        by (simp add: trackUsage_def insert_code_usage_def)
      moreover have "length (usage_of p u (s\<lparr>code_usage := code_usage s @ [?new]\<rparr>)) \<le> 1"
      proof (cases "p = pc_id pc \<and> u = uid")
        case True
        then show ?thesis
          using empty by (simp add: usage_of_def)
      next
        case False
        then have "usage_of p u (s\<lparr>code_usage := code_usage s @ [?new]\<rparr>) = usage_of p u s"
          by (auto simp: usage_of_def)
        then show ?thesis
          using inv [of p u] by simp
      qed
      ultimately show ?thesis
        using inv [of p u] by auto
    qed
  qed
qed

text \<open>
  Claim C6 (ledger idempotence). For a stored code and a registered user with at most
  one usage row for the pair so far, two trackUsage calls in sequence (the clock not going
  backwards) leave exactly one usage row for (pairing-code id, user id) after each call;
  the row carries the instant of the first call after the first, the instant of the second
  call after the second, and the second is not earlier than the first.
\<close>

theorem trackUsage_twice_one_row:
  assumes live: "select_code s (cleanCode code) = Some pc"
    and user: "uid \<noteq> []" "user_exists s uid"
    and owner: "user_exists s (pc_user_id pc)"
    and inv: "length (usage_of (pc_id pc) uid s) \<le> 1"
    and clock: "now \<le> now'"
  shows "\<exists>first second.
      usage_of (pc_id pc) uid (snd (trackUsage now new_id s code (Some uid) dev)) = [first]
    \<and> usage_of (pc_id pc) uid
         (snd (trackUsage now' new_id' (snd (trackUsage now new_id s code (Some uid) dev))
                code (Some uid) dev')) = [second]
    \<and> cu_timestamp first = now \<and> cu_timestamp second = now'
    \<and> cu_timestamp first \<le> cu_timestamp second"
proof -
  let ?s1 = "snd (trackUsage now new_id s code (Some uid) dev)"
  note step1 = trackUsage_step [OF live user owner inv, of now new_id dev]
  obtain first where first: "usage_of (pc_id pc) uid ?s1 = [first]" "cu_timestamp first = now"
    using step1(1) by blast
  have live1: "select_code ?s1 (cleanCode code) = Some pc"
    using live step1(2) by (simp add: select_code_def)
  have user1: "user_exists ?s1 uid" and owner1: "user_exists ?s1 (pc_user_id pc)"
    using user(2) owner step1(3) by (simp_all add: user_exists_def)
  have inv1: "length (usage_of (pc_id pc) uid ?s1) \<le> 1"
    using first(1) by simp
  note step2 = trackUsage_step [OF live1 user(1) user1 owner1 inv1, of now' new_id' dev']
  obtain second where second:
    "usage_of (pc_id pc) uid (snd (trackUsage now' new_id' ?s1 code (Some uid) dev')) = [second]"
    "cu_timestamp second = now'"
    using step2(1) by blast
  show ?thesis
    using first second clock by auto
qed

theorem trackUsage_twice_one_row_witness:
  "\<exists>first second.
      usage_of (pc_id code_AB12CD) ''U2''
        (snd (trackUsage 2000 ''G1'' example_store ''AB12CD'' (Some ''U2'') None)) = [first]
    \<and> usage_of (pc_id code_AB12CD) ''U2''
         (snd (trackUsage 3000 ''G2''
                (snd (trackUsage 2000 ''G1'' example_store ''AB12CD'' (Some ''U2'') None))
                ''AB12CD'' (Some ''U2'') None)) = [second]
    \<and> cu_timestamp first = 2000 \<and> cu_timestamp second = 3000
    \<and> cu_timestamp first \<le> cu_timestamp second"
proof -
  have live: "select_code example_store (cleanCode ''AB12CD'') = Some code_AB12CD"
    by code_simp
  have user: "''U2'' \<noteq> []" "user_exists example_store ''U2''"
    by code_simp+
  have owner: "user_exists example_store (pc_user_id code_AB12CD)"
    by code_simp
  have inv: "length (usage_of (pc_id code_AB12CD) ''U2'' example_store) \<le> 1"
    by code_simp
  have clock: "(2000::int) \<le> 3000"
    by simp
  show ?thesis
    using trackUsage_twice_one_row [OF live user owner inv clock,
        where new_id = "''G1''" and new_id' = "''G2''" and dev = None and dev' = None]
    by simp
qed

text \<open>
  Claim C7 (owner-only usage history). For a stored code and a supplied requester id, the
  history endpoint answers 403 whenever the requester is not the code's owner, whether or
  not the requester is a registered user, and it returns a history exactly when the
  requester is the owner.
\<close>

theorem usageHistory_owner_only:
  assumes "select_code s (cleanCode code) = Some pc"
    and "requester \<noteq> []"
  shows "(requester \<noteq> pc_user_id pc \<longrightarrow>
            usageHistory s code (Some requester)
              = Status 403 ''Not authorized to view this code's usage'')
    \<and> (requester = pc_user_id pc \<longrightarrow> (\<exists>h. usageHistory s code (Some requester) = Json h))
    \<and> ((\<exists>h. usageHistory s code (Some requester) = Json h) \<longrightarrow> requester = pc_user_id pc)"
  using assms by (auto simp: usageHistory_def Let_def)

theorem usageHistory_owner_only_witness:
  "usageHistory usage_store ''AB12CD'' (Some ''U2'')
      = Status 403 ''Not authorized to view this code's usage''
    \<and> user_exists usage_store ''U2''
    \<and> (\<exists>h. usageHistory usage_store ''AB12CD'' (Some ''U1'') = Json h)"
proof -
  have live: "select_code usage_store (cleanCode ''AB12CD'') = Some code_AB12CD"
    by code_simp
  have other: "''U2'' \<noteq> pc_user_id code_AB12CD" and own: "''U1'' = pc_user_id code_AB12CD"
    by code_simp+
  have valid: "user_exists usage_store ''U2''"
    by code_simp
  have ne: "''U2'' \<noteq> []" "''U1'' \<noteq> []"
    by simp_all
  show ?thesis
    using usageHistory_owner_only [OF live ne(1)] usageHistory_owner_only [OF live ne(2)]
      other own valid
    by blast
qed

text \<open>
  Claim C8 (scoped no-op deletion). When the requester owns the code and no usage row has
  both the given usage id and this code's id (the id belongs to another code's row, or to
  none), removeUsageEntry returns the store unchanged together with the acknowledgement
  \<^verbatim>\<open>User removed successfully\<close>, which is also the answer for every other usage id.
\<close>

theorem removeUsageEntry_scoped_noop:
  assumes live: "select_code s (cleanCode code) = Some pc"
    and requester: "requester \<noteq> []" "pc_user_id pc = requester"
    and foreign: "\<forall>r \<in> set (code_usage s). cu_id r = usageId \<longrightarrow> cu_pairing_code_id r \<noteq> pc_id pc"
  shows "removeUsageEntry s code usageId (Some requester) = (Json ''User removed successfully'', s)
    \<and> fst (removeUsageEntry s code anyId (Some requester)) = Json ''User removed successfully''"
proof -
  have "filter (\<lambda>r. \<not> (cu_id r = usageId \<and> cu_pairing_code_id r = pc_id pc)) (code_usage s)
      = code_usage s"
    using foreign by (simp add: filter_id_conv)
  then show ?thesis
    using live requester by (simp add: removeUsageEntry_def)
qed

theorem removeUsageEntry_scoped_noop_witness:
  "removeUsageEntry usage_store ''AB12CD'' ''G2'' (Some ''U1'')
      = (Json ''User removed successfully'', usage_store)
    \<and> removeUsageEntry usage_store ''AB12CD'' ''nobody'' (Some ''U1'')
      = (Json ''User removed successfully'', usage_store)
    \<and> fst (removeUsageEntry usage_store ''AB12CD'' ''G1'' (Some ''U1''))
      = Json ''User removed successfully''
    \<and> ''G2'' \<in> set (map cu_id (code_usage usage_store))"
proof -
  have live: "select_code usage_store (cleanCode ''AB12CD'') = Some code_AB12CD"
    by code_simp
  have requester: "''U1'' \<noteq> []" "pc_user_id code_AB12CD = ''U1''"
    by code_simp+
  have foreign: "\<forall>r \<in> set (code_usage usage_store).
      cu_id r = ''G2'' \<longrightarrow> cu_pairing_code_id r \<noteq> pc_id code_AB12CD"
    by code_simp
  have missing: "\<forall>r \<in> set (code_usage usage_store).
      cu_id r = ''nobody'' \<longrightarrow> cu_pairing_code_id r \<noteq> pc_id code_AB12CD"
    by code_simp
  have there: "''G2'' \<in> set (map cu_id (code_usage usage_store))"
    by code_simp
  show ?thesis
    using removeUsageEntry_scoped_noop [OF live requester foreign, where anyId = "''G1''"]
      removeUsageEntry_scoped_noop [OF live requester missing, where anyId = "''G1''"] there
    by blast
qed

section \<open>Properties of the device graph\<close>

lemma set_map_filter_iff:
  "y \<in> set (List.map_filter f xs) \<longleftrightarrow> (\<exists>x \<in> set xs. f x = Some y)"
  by (induction xs) (auto split: option.splits)

lemma listPaired_ids:
  assumes "x \<in> set (map ds_id (listPaired s u))"
  shows "\<exists>c \<in> set (device_connections s).
           (dc_initiator_user_id c = u \<or> dc_paired_user_id c = u) \<and> dc_paired_user_id c = x"
proof -
  from assms obtain d where d: "d \<in> set (listPaired s u)" "ds_id d = x"
    by auto
  from d(1) obtain c where c: "c \<in> set (device_connections s)"
      "dc_initiator_user_id c = u \<or> dc_paired_user_id c = u"
      "map_option summary_of (select_user s (dc_paired_user_id c)) = Some d"
    by (auto simp: listPaired_def set_map_filter_iff)
  from c(3) obtain usr where usr: "select_user s (dc_paired_user_id c) = Some usr" "d = summary_of usr"
    by auto
  have "ds_id d = dc_paired_user_id c"
    using usr select_user_SomeD(2) [OF usr(1)] by (simp add: summary_of_def)
  then show ?thesis
    using c(1,2) d(2) by auto
qed

text \<open>
  Claim C9 (two-direction disconnect). For two distinct, supplied user ids a and b,
  disconnect acknowledges, leaves no connection row (a, b) or (b, a), keeps every other
  row, and afterwards b is not listed by listPaired for a, nor a by listPaired for b.
\<close>

theorem disconnect_both_directions:
  assumes ids: "a \<noteq> []" "b \<noteq> []"
    and distinct: "a \<noteq> b"
  shows "fst (disconnect s (Some a) (Some b)) = Json ''Device disconnected successfully''
    \<and> (a, b) \<notin> set (connection_pairs (snd (disconnect s (Some a) (Some b))))
    \<and> (b, a) \<notin> set (connection_pairs (snd (disconnect s (Some a) (Some b))))
    \<and> (\<forall>c \<in> set (device_connections s).
          (dc_initiator_user_id c, dc_paired_user_id c) \<noteq> (a, b)
          \<and> (dc_initiator_user_id c, dc_paired_user_id c) \<noteq> (b, a)
          \<longrightarrow> c \<in> set (device_connections (snd (disconnect s (Some a) (Some b)))))
    \<and> b \<notin> set (map ds_id (listPaired (snd (disconnect s (Some a) (Some b))) a))
    \<and> a \<notin> set (map ds_id (listPaired (snd (disconnect s (Some a) (Some b))) b))"
proof -
  let ?s = "snd (disconnect s (Some a) (Some b))"
  have rows: "device_connections ?s
      = filter (\<lambda>c. \<not> ((dc_initiator_user_id c = a \<and> dc_paired_user_id c = b)
                     \<or> (dc_initiator_user_id c = b \<and> dc_paired_user_id c = a)))
          (device_connections s)"
    using ids by (simp add: disconnect_def)
  have ack: "fst (disconnect s (Some a) (Some b)) = Json ''Device disconnected successfully''"
    using ids by (simp add: disconnect_def)
  have ab: "(a, b) \<notin> set (connection_pairs ?s)" and ba: "(b, a) \<notin> set (connection_pairs ?s)"
    by (auto simp: connection_pairs_def rows)
  have kept: "\<forall>c \<in> set (device_connections s).
      (dc_initiator_user_id c, dc_paired_user_id c) \<noteq> (a, b)
      \<and> (dc_initiator_user_id c, dc_paired_user_id c) \<noteq> (b, a)
      \<longrightarrow> c \<in> set (device_connections ?s)"
    by (auto simp: rows)
  have la: "b \<notin> set (map ds_id (listPaired ?s a))"
  proof
    assume "b \<in> set (map ds_id (listPaired ?s a))"
    then obtain c where c: "c \<in> set (device_connections ?s)"
        "dc_initiator_user_id c = a \<or> dc_paired_user_id c = a" "dc_paired_user_id c = b"
      using listPaired_ids by blast
    then have "(a, b) \<in> set (connection_pairs ?s)"
      using distinct by (force simp: connection_pairs_def)
    with ab show False ..
  qed
  have lb: "a \<notin> set (map ds_id (listPaired ?s b))"
  proof
    assume "a \<in> set (map ds_id (listPaired ?s b))"
    then obtain c where c: "c \<in> set (device_connections ?s)"
        "dc_initiator_user_id c = b \<or> dc_paired_user_id c = b" "dc_paired_user_id c = a"
      using listPaired_ids by blast
    then have "(b, a) \<in> set (connection_pairs ?s)"
      using distinct by (force simp: connection_pairs_def)
    with ba show False ..
  qed
  show ?thesis
    using ack ab ba kept la lb by blast
qed

theorem disconnect_both_directions_witness:
  "''U1'' \<in> set (map ds_id (listPaired connected_store ''U2''))
    \<and> (''U2'', ''U1'') \<in> set (connection_pairs connected_store)
    \<and> fst (disconnect connected_store (Some ''U1'') (Some ''U2''))
         = Json ''Device disconnected successfully''
    \<and> (''U2'', ''U1'') \<notin> set (connection_pairs (snd (disconnect connected_store (Some ''U1'') (Some ''U2''))))
    \<and> ''U2'' \<notin> set (map ds_id (listPaired (snd (disconnect connected_store (Some ''U1'') (Some ''U2''))) ''U1''))
    \<and> ''U1'' \<notin> set (map ds_id (listPaired (snd (disconnect connected_store (Some ''U1'') (Some ''U2''))) ''U2''))"
proof -
  have before: "''U1'' \<in> set (map ds_id (listPaired connected_store ''U2''))"
    by code_simp
  have row: "(''U2'', ''U1'') \<in> set (connection_pairs connected_store)"
    by code_simp
  have ids: "''U1'' \<noteq> []" "''U2'' \<noteq> []" and distinct: "''U1'' \<noteq> ''U2''"
    by simp_all
  show ?thesis
    using before row disconnect_both_directions [OF ids distinct, of connected_store]
    by blast
qed

text \<open>
  Claim C1 (pairing symmetry), evaluated on the example store. U2 redeems the code of U1:
  validate returns U1 and stores the row (initiator U2, paired U1). listPaired for U2 is
  U1's summary; listPaired for U1 is again U1's summary, since the embedded user is the
  one referenced by \<^verbatim>\<open>paired_user_id\<close> for every matching row, and U2 is not listed.
\<close>

theorem listPaired_owner_side:
  "fst (validate 2000 ''C1'' example_store (Some ''AB12CD'') (Some ''U2'')) = Json user_U1
    \<and> listPaired (snd (validate 2000 ''C1'' example_store (Some ''AB12CD'') (Some ''U2''))) ''U2''
         = [summary_of user_U1]
    \<and> listPaired (snd (validate 2000 ''C1'' example_store (Some ''AB12CD'') (Some ''U2''))) ''U1''
         = [summary_of user_U1]
    \<and> summary_of user_U2
         \<notin> set (listPaired (snd (validate 2000 ''C1'' example_store (Some ''AB12CD'') (Some ''U2''))) ''U1'')"
  by code_simp

section \<open>Properties of code generation\<close>

lemma random_code_length: "length (random_code rnd) = min 6 (length rnd - 2)"
  by (simp add: random_code_def toUpperCase_def)

text \<open>
  Claim C2 (format of generated codes), evaluated at the random number one half, whose
  base-36 rendering is \<^verbatim>\<open>0.i\<close>: generate succeeds, returns the one-character code
  \<^verbatim>\<open>I\<close> and stores a row of U1 with that code, created at 1000 and expiring 24 hours
  later.
\<close>

theorem generate_short_code:
  "generate 1000 ''P9'' ''0.i'' example_store (Some ''U1'') None None None None
     = (Json ''I'',
        example_store\<lparr>pairing_codes := [code_AB12CD,
          \<lparr>pc_id = ''P9'', pc_user_id = ''U1'', pc_code = ''I'', pc_latitude = None,
           pc_longitude = None, pc_accuracy = None, pc_created_at = 1000,
           pc_expires_at = 1000 + hours24, pc_updated_at = None\<rparr>]\<rparr>)
   \<and> length ''I'' \<noteq> (6::nat)"
  by code_simp

section \<open>Properties of the location endpoints\<close>

lemma nonzero_None_iff: "nonzero x = None \<longleftrightarrow> x = None \<or> x = Some 0"
  by (cases x) simp_all

lemma nonzero_SomeD: "nonzero x = Some y \<Longrightarrow> x = Some y \<and> y \<noteq> 0"
  by (cases x) (simp_all split: if_splits)

text \<open>
  Claim C10 (zero coordinates read as absent). updateLocation rejects a request whose
  latitude or longitude is zero with \<^verbatim>\<open>Missing required fields: latitude, longitude\<close>,
  the answer it gives when a coordinate is missing, and leaves the store unchanged.
  getLocation on a stored code whose latitude or longitude is zero answers
  \<^verbatim>\<open>Location data not available for this code\<close>, the answer it gives when a
  coordinate is null.
\<close>

theorem zero_coordinates_absent:
  "(latitude = Some 0 \<or> longitude = Some 0 \<longrightarrow>
      updateLocation now s code latitude longitude accuracy
        = (Status 400 ''Missing required fields: latitude, longitude'', s))
   \<and> (latitude = None \<or> longitude = None \<longrightarrow>
      updateLocation now s code latitude longitude accuracy
        = (Status 400 ''Missing required fields: latitude, longitude'', s))
   \<and> (select_code s (cleanCode code) = Some pc
        \<and> (pc_latitude pc = Some 0 \<or> pc_longitude pc = Some 0) \<longrightarrow>
      getLocation s code = Status 400 ''Location data not available for this code'')
   \<and> (select_code s (cleanCode code) = Some pc
        \<and> (pc_latitude pc = None \<or> pc_longitude pc = None) \<longrightarrow>
      getLocation s code = Status 400 ''Location data not available for this code'')"
proof -
  have u0: "latitude = Some 0 \<or> longitude = Some 0 \<longrightarrow>
      updateLocation now s code latitude longitude accuracy
        = (Status 400 ''Missing required fields: latitude, longitude'', s)"
    by (auto simp: updateLocation_def nonzero_None_iff split: option.splits)
  have un: "latitude = None \<or> longitude = None \<longrightarrow>
      updateLocation now s code latitude longitude accuracy
        = (Status 400 ''Missing required fields: latitude, longitude'', s)"
    by (auto simp: updateLocation_def split: option.splits)
  have g0: "select_code s (cleanCode code) = Some pc
        \<and> (pc_latitude pc = Some 0 \<or> pc_longitude pc = Some 0) \<longrightarrow>
      getLocation s code = Status 400 ''Location data not available for this code''"
    by (auto simp: getLocation_def split: option.splits)
  have gn: "select_code s (cleanCode code) = Some pc
        \<and> (pc_latitude pc = None \<or> pc_longitude pc = None) \<longrightarrow>
      getLocation s code = Status 400 ''Location data not available for this code''"
    by (auto simp: getLocation_def split: option.splits dest: nonzero_SomeD)
  show ?thesis
    using u0 un g0 gn by blast
qed

theorem zero_coordinates_absent_witness:
  "updateLocation 5000 usage_store ''AB12CD'' (Some 0) (Some 3) None
      = (Status 400 ''Missing required fields: latitude, longitude'', usage_store)
   \<and> updateLocation 5000 usage_store ''AB12CD'' (Some 3) (Some 0) None
      = (Status 400 ''Missing required fields: latitude, longitude'', usage_store)
   \<and> updateLocation 5000 usage_store ''AB12CD'' None (Some 3) None
      = (Status 400 ''Missing required fields: latitude, longitude'', usage_store)
   \<and> select_code usage_store (cleanCode ''ZZ99ZZ'') = Some code_ZZ99ZZ
   \<and> pc_latitude code_ZZ99ZZ = Some 0
   \<and> getLocation usage_store ''ZZ99ZZ'' = Status 400 ''Location data not available for this code''"
proof -
  have live: "select_code usage_store (cleanCode ''ZZ99ZZ'') = Some code_ZZ99ZZ"
    by code_simp
  have zero: "pc_latitude code_ZZ99ZZ = Some 0"
    by code_simp
  show ?thesis
    using live zero
      zero_coordinates_absent [where latitude = "Some 0" and longitude = "Some 3"
        and now = 5000 and s = usage_store and code = "''AB12CD''" and accuracy = None]
      zero_coordinates_absent [where latitude = "Some 3" and longitude = "Some 0"
        and now = 5000 and s = usage_store and code = "''AB12CD''" and accuracy = None]
      zero_coordinates_absent [where latitude = None and longitude = "Some 3"
        and now = 5000 and s = usage_store and code = "''AB12CD''" and accuracy = None]
      zero_coordinates_absent [where s = usage_store and code = "''ZZ99ZZ''" and pc = code_ZZ99ZZ]
    by blast
qed

end
